theory Spec2Isabelle
  imports
    Complex_Main
    "HOL-Library.Sublist"
    "HOL-Library.Char_ord"
    "HOL-Library.List_Lexorder"
    "HOL-Library.Product_Lexorder"
begin

section \<open>Eggschange: supplier matching and landed-cost comparison\<close>

text \<open>
  A shallow embedding of \<^verbatim>\<open>eggschange_mvp_app.py\<close>: the helper \<^verbatim>\<open>postcode_matches\<close>,
  the matcher \<^verbatim>\<open>rank_suppliers_for_rfq\<close> and the loop of the compare branch of
  \<^verbatim>\<open>App.do_GET\<close>.

  Conventions of the embedding.
  \<^item> A nullable column of the SQLite schema is an \<open>option\<close>; the source's
    \<^verbatim>\<open>x or default\<close> is written out as a case distinction on it.
  \<^item> Python strings are \<open>string\<close>, read as ASCII text: \<^verbatim>\<open>upper\<close>, \<^verbatim>\<open>lower\<close>,
    \<^verbatim>\<open>title\<close>, \<^verbatim>\<open>strip\<close> and the regular expression's \<^verbatim>\<open>\d\<close> act on the ASCII
    letters, white space and digits.
  \<^item> Python floats are exact rationals (\<open>rat\<close>): division, addition and comparison
    are the mathematical ones.
  \<^item> The built-in \<^verbatim>\<open>round(x, 4)\<close> is a parameter \<open>rnd\<close> of the cost normalizer. Which
    neighbour it returns for a value half-way between two multiples of 0.0001 depends on
    the binary expansion of the float, which a rational does not have (for 0.01 / 200 the
    source gives 0.0001, for 0.03 / 200 it gives 0.0001 too). The theorems about rounded
    values assume \<open>rounds4 rnd\<close>: the result is a multiple of 1/10000 at most half a
    unit away from the argument, whichever neighbour is taken half-way.
  \<^item> The table \<^verbatim>\<open>supplier\<close> and the result of the quote query are parameters (lists of
    rows in the order the database returns them).
  \<^item> An exception of the source is a value \<open>Inl e\<close> of the result.
\<close>

subsection \<open>Python string operations\<close>

definition is_lower :: "char \<Rightarrow> bool" where
  "is_lower c = (97 \<le> (of_char c :: nat) \<and> (of_char c :: nat) \<le> 122)"

definition is_upper :: "char \<Rightarrow> bool" where
  "is_upper c = (65 \<le> (of_char c :: nat) \<and> (of_char c :: nat) \<le> 90)"

definition is_digit :: "char \<Rightarrow> bool" where
  "is_digit c = (48 \<le> (of_char c :: nat) \<and> (of_char c :: nat) \<le> 57)"

definition is_space :: "char \<Rightarrow> bool" where
  "is_space c = ((9 \<le> (of_char c :: nat) \<and> (of_char c :: nat) \<le> 13)
                 \<or> (28 \<le> (of_char c :: nat) \<and> (of_char c :: nat) \<le> 32))"

definition upper_char :: "char \<Rightarrow> char" where
  "upper_char c = (if is_lower c then char_of ((of_char c :: nat) - 32) else c)"

definition lower_char :: "char \<Rightarrow> char" where
  "lower_char c = (if is_upper c then char_of ((of_char c :: nat) + 32) else c)"

definition upper :: "string \<Rightarrow> string" where
  "upper s = map upper_char s"

definition lower :: "string \<Rightarrow> string" where
  "lower s = map lower_char s"

text \<open>\<^verbatim>\<open>str.title()\<close>: a letter that follows a letter is lowered, any other letter is raised.\<close>

fun title_from :: "bool \<Rightarrow> string \<Rightarrow> string" where
  "title_from prev [] = []"
| "title_from prev (c # cs) =
     (if prev then lower_char c else upper_char c) # title_from (is_lower c \<or> is_upper c) cs"

definition title :: "string \<Rightarrow> string" where
  "title s = title_from False s"

definition strip :: "string \<Rightarrow> string" where
  "strip s = rev (dropWhile is_space (rev (dropWhile is_space s)))"

text \<open>\<^verbatim>\<open>s.split(c)\<close>: the pieces between the separators; the empty string gives one empty piece.\<close>

fun split_on :: "char \<Rightarrow> string \<Rightarrow> string list" where
  "split_on c [] = [[]]"
| "split_on c (x # xs) =
     (if x = c then [] # split_on c xs
      else (case split_on c xs of [] \<Rightarrow> [[x]] | w # ws \<Rightarrow> (x # w) # ws))"

text \<open>The comprehension \<^verbatim>\<open>[f(p.strip()) for p in s.split(",") if p.strip()]\<close>.\<close>

definition csv_fields :: "(string \<Rightarrow> string) \<Rightarrow> string \<Rightarrow> string list" where
  "csv_fields f s = map (\<lambda>p. f (strip p)) (filter (\<lambda>p. strip p \<noteq> []) (split_on CHR '','' s))"

text \<open>\<^verbatim>\<open>s.replace(a, b)\<close> for single characters, and \<^verbatim>\<open>s.replace(a, "")\<close>.\<close>

definition replace_char :: "char \<Rightarrow> char \<Rightarrow> string \<Rightarrow> string" where
  "replace_char a b s = map (\<lambda>c. if c = a then b else c) s"

definition remove_char :: "char \<Rightarrow> string \<Rightarrow> string" where
  "remove_char a s = filter (\<lambda>c. c \<noteq> a) s"

text \<open>The value of a run of decimal digits.\<close>

definition digits_val :: "string \<Rightarrow> nat" where
  "digits_val ds = foldl (\<lambda>acc c. 10 * acc + ((of_char c :: nat) - 48)) 0 ds"

text \<open>
  \<^verbatim>\<open>re.search(r"(\d+(?:\.\d{1,2})?)", s)\<close> followed by \<^verbatim>\<open>float(m.group(1))\<close>: the leftmost
  maximal run of digits, extended by a point and one or two digits when they follow.
\<close>

definition search_price :: "string \<Rightarrow> rat option" where
  "search_price s =
     (let r = dropWhile (\<lambda>c. \<not> is_digit c) s in
      if r = [] then None
      else
        let ip = takeWhile is_digit r;
            rest = dropWhile is_digit r;
            fp = (case rest of
                    [] \<Rightarrow> []
                  | d # rest' \<Rightarrow> if d = CHR ''.'' then take 2 (takeWhile is_digit rest') else [])
        in Some (of_nat (digits_val ip) + of_nat (digits_val fp) / 10 ^ length fp))"

text \<open>
  What \<^verbatim>\<open>round(x, 4)\<close> guarantees: \<open>r\<close> is \<open>x\<close> rounded to four decimals when it is
  a multiple of 1/10000 at most half of 1/10000 away from \<open>x\<close>.
\<close>

definition is_rounded4 :: "rat \<Rightarrow> rat \<Rightarrow> bool" where
  "is_rounded4 x r \<longleftrightarrow> (\<exists>k::int. r = of_int k / 10000) \<and> \<bar>r - x\<bar> \<le> 1 / 20000"

definition rounds4 :: "(rat \<Rightarrow> rat) \<Rightarrow> bool" where
  "rounds4 rnd \<longleftrightarrow> (\<forall>x. is_rounded4 x (rnd x))"

text \<open>
  Rounding half to even on the exact value: one function with \<open>rounds4\<close>, with which
  the examples are evaluated.
\<close>

definition py_round4 :: "rat \<Rightarrow> rat" where
  "py_round4 x =
     (let y = x * 10000;
          f = \<lfloor>y\<rfloor>;
          d = y - of_int f
      in of_int (if d < 1 / 2 then f
                 else if 1 / 2 < d then f + 1
                 else if even f then f else f + 1) / 10000)"

subsection \<open>Records of the data model\<close>

record rfq =
  postcodes :: "string option"
  rfq_welfare :: "string option"
  delivery_windows :: "string option"

text \<open>A line item as \<^verbatim>\<open>parse_line_items_json\<close> builds it.\<close>

record line_item =
  kind :: string
  item_size :: string
  pack :: string
  qty_week :: int
  target_price :: string

record supplier =
  name :: string
  welfare :: "string option"
  sizes :: "string option"
  pack_formats :: "string option"
  moq_trays :: "int option"
  delivery_days :: "string option"
  delivery_postcodes :: "string option"
  price_band_low :: "rat option"
  price_band_high :: "rat option"

text \<open>An entry of the matcher's output: the supplier's row with its score.\<close>

record ranked_supplier =
  srow :: supplier
  score :: int

text \<open>A row of the quote query (joined with the supplier's name).\<close>

record quote =
  sname :: string
  line_item_index :: "int option"
  unit_price :: "rat option"
  delivery_cost :: "rat option"
  lead_time_days :: "int option"
  hold_weeks :: "int option"
  remarks :: "string option"

record comparison_row =
  row_supplier :: string
  line_item_label :: string
  row_unit_price :: rat
  row_delivery_cost :: rat
  row_qty_week :: int
  delivery_per_unit :: rat
  landed_per_unit :: rat
  row_lead_time_days :: "int option"
  row_hold_weeks :: "int option"
  row_remarks :: "string option"

datatype error = IndexError

text \<open>\<^verbatim>\<open>x or ""\<close>, \<^verbatim>\<open>x or 0\<close>.\<close>

definition or_empty :: "string option \<Rightarrow> string" where
  "or_empty x = (case x of None \<Rightarrow> [] | Some s \<Rightarrow> s)"

definition or_zero :: "'a::zero option \<Rightarrow> 'a" where
  "or_zero x = (case x of None \<Rightarrow> 0 | Some v \<Rightarrow> v)"

subsection \<open>The cost normalizer: the compare branch of \<^verbatim>\<open>App.do_GET\<close>\<close>

definition placeholder :: line_item where
  "placeholder = \<lparr>kind = [], item_size = [], pack = [], qty_week = 0, target_price = []\<rparr>"

text \<open>
  \<^verbatim>\<open>items[idx] if idx < len(items) else {...}\<close>. A negative index counts from the end of
  the list, and one below \<^verbatim>\<open>-len(items)\<close> raises \<^verbatim>\<open>IndexError\<close>.
\<close>

definition resolve_item :: "line_item list \<Rightarrow> int \<Rightarrow> error + line_item" where
  "resolve_item items idx =
     (if idx < int (length items) then
        (if 0 \<le> idx then Inr (items ! nat idx)
         else if - int (length items) \<le> idx then Inr (items ! nat (int (length items) + idx))
         else Inl IndexError)
      else Inr placeholder)"

text \<open>The body of the loop over the quotes, with \<open>rnd\<close> for \<^verbatim>\<open>round(., 4)\<close>.\<close>

definition make_row :: "(rat \<Rightarrow> rat) \<Rightarrow> quote \<Rightarrow> line_item \<Rightarrow> comparison_row" where
  "make_row rnd q it =
     (let qty = qty_week it;
          del_per = (if qty \<noteq> 0 then or_zero (delivery_cost q) / of_int qty else 0);
          landed = or_zero (unit_price q) + del_per
      in \<lparr>row_supplier = sname q,
          line_item_label = kind it @ '' '' @ item_size it @ '' '' @ pack it,
          row_unit_price = or_zero (unit_price q),
          row_delivery_cost = or_zero (delivery_cost q),
          row_qty_week = qty,
          delivery_per_unit = rnd del_per,
          landed_per_unit = rnd landed,
          row_lead_time_days = lead_time_days q,
          row_hold_weeks = hold_weeks q,
          row_remarks = remarks q\<rparr>)"

text \<open>The loop \<^verbatim>\<open>for q in quotes: ... rows.append(...)\<close>; the first exception ends it.\<close>

fun build_rows ::
  "(rat \<Rightarrow> rat) \<Rightarrow> line_item list \<Rightarrow> quote list \<Rightarrow> error + comparison_row list" where
  "build_rows rnd items [] = Inr []"
| "build_rows rnd items (q # qs) =
     (case resolve_item items (or_zero (line_item_index q)) of
        Inl e \<Rightarrow> Inl e
      | Inr it \<Rightarrow>
          (case build_rows rnd items qs of
             Inl e \<Rightarrow> Inl e
           | Inr rows \<Rightarrow> Inr (make_row rnd q it # rows)))"

text \<open>\<^verbatim>\<open>rows.sort(key=lambda x: x["landed_per_unit"])\<close>: a stable sort.\<close>

definition compare_rows ::
  "(rat \<Rightarrow> rat) \<Rightarrow> line_item list \<Rightarrow> quote list \<Rightarrow> error + comparison_row list" where
  "compare_rows rnd items quotes =
     (case build_rows rnd items quotes of
        Inl e \<Rightarrow> Inl e
      | Inr rows \<Rightarrow> Inr (sort_key landed_per_unit rows))"

subsection \<open>The matcher: \<^verbatim>\<open>postcode_matches\<close> and \<^verbatim>\<open>rank_suppliers_for_rfq\<close>\<close>

definition postcode_matches :: "string \<Rightarrow> string list \<Rightarrow> bool" where
  "postcode_matches supplier_prefixes rfq_pcs =
     (if supplier_prefixes = [] then False
      else
        let prefs = csv_fields upper supplier_prefixes
        in list_ex (\<lambda>rp. list_ex (\<lambda>sp. prefix sp (upper rp)) prefs) rfq_pcs)"

definition rfq_postcodes :: "rfq \<Rightarrow> string list" where
  "rfq_postcodes r = csv_fields upper (or_empty (postcodes r))"

definition rfq_days :: "rfq \<Rightarrow> string set" where
  "rfq_days r =
     set (csv_fields title (replace_char CHR ''/'' CHR '','' (or_empty (delivery_windows r))))"

definition wanted_welfare :: "rfq \<Rightarrow> string option" where
  "wanted_welfare r =
     (let w = strip (lower (or_empty (rfq_welfare r))) in if w = [] then None else Some w)"

definition supplier_sizes :: "supplier \<Rightarrow> string set" where
  "supplier_sizes s = set (csv_fields upper (or_empty (sizes s)))"

definition supplier_packs :: "supplier \<Rightarrow> string set" where
  "supplier_packs s = set (csv_fields lower (or_empty (pack_formats s)))"

definition supplier_days :: "supplier \<Rightarrow> string set" where
  "supplier_days s = set (csv_fields title (or_empty (delivery_days s)))"

text \<open>The body of the loop over the items: whether the item adds one to \<^verbatim>\<open>can_cover_items\<close>.\<close>

definition covers :: "supplier \<Rightarrow> line_item \<Rightarrow> bool" where
  "covers s it =
     (if (upper (item_size it) \<in> supplier_sizes s \<or> upper (item_size it) = ''MIXED'')
         \<and> lower (pack it) \<in> supplier_packs s
      then
        (let moq = or_zero (moq_trays s)
         in if lower (pack it) = ''tray'' \<and> moq > qty_week it then False else True)
      else False)"

definition can_cover_items :: "supplier \<Rightarrow> line_item list \<Rightarrow> int" where
  "can_cover_items s items = int (length (filter (covers s) items))"

text \<open>\<^verbatim>\<open>len(rfq_days & days) if rfq_days else 1\<close>.\<close>

definition overlap :: "rfq \<Rightarrow> supplier \<Rightarrow> int" where
  "overlap r s = (if rfq_days r \<noteq> {} then int (card (rfq_days r \<inter> supplier_days s)) else 1)"

text \<open>
  The loop that sets \<^verbatim>\<open>t_price\<close>: it leaves at the first item whose target price is
  non-empty and holds a number.
\<close>

fun t_price :: "line_item list \<Rightarrow> rat option" where
  "t_price [] = None"
| "t_price (it # its) =
     (if target_price it \<noteq> [] then
        (case search_price (remove_char CHR '','' (target_price it)) of
           Some v \<Rightarrow> Some v
         | None \<Rightarrow> t_price its)
      else t_price its)"

definition price_bonus :: "supplier \<Rightarrow> line_item list \<Rightarrow> int" where
  "price_bonus s items =
     (case t_price items of
        None \<Rightarrow> 0
      | Some t \<Rightarrow>
          (case price_band_low s of
             None \<Rightarrow> 0
           | Some lo \<Rightarrow>
               (case price_band_high s of
                  None \<Rightarrow> 0
                | Some hi \<Rightarrow> if lo \<le> t \<and> t \<le> hi then 2 else 0)))"

definition supplier_score :: "rfq \<Rightarrow> line_item list \<Rightarrow> supplier \<Rightarrow> int" where
  "supplier_score r items s = can_cover_items s items * 10 + overlap r s * 2 + price_bonus s items"

text \<open>The loop over the suppliers: each \<^verbatim>\<open>continue\<close> drops the supplier.\<close>

fun rank_loop :: "rfq \<Rightarrow> line_item list \<Rightarrow> supplier list \<Rightarrow> ranked_supplier list" where
  "rank_loop r items [] = []"
| "rank_loop r items (s # ss) =
     (if \<not> postcode_matches (or_empty (delivery_postcodes s)) (rfq_postcodes r)
      then rank_loop r items ss
      else if (case wanted_welfare r of
                 None \<Rightarrow> False
               | Some w \<Rightarrow> \<not> sublist w (lower (or_empty (welfare s))))
      then rank_loop r items ss
      else if can_cover_items s items = 0
      then rank_loop r items ss
      else \<lparr>srow = s, score = supplier_score r items s\<rparr> # rank_loop r items ss)"

text \<open>\<^verbatim>\<open>ranked.sort(key=lambda x: (-x["score"], x["name"]))\<close>: a stable sort.\<close>

definition rank_suppliers_for_rfq ::
  "rfq \<Rightarrow> line_item list \<Rightarrow> supplier list \<Rightarrow> ranked_supplier list" where
  "rank_suppliers_for_rfq r items suppliers =
     sort_key (\<lambda>x. (- score x, name (srow x))) (rank_loop r items suppliers)"

text \<open>The three hard constraints of the loop over the suppliers, in the source's order.\<close>

abbreviation passes :: "rfq \<Rightarrow> line_item list \<Rightarrow> supplier \<Rightarrow> bool" where
  "passes r items s \<equiv>
     postcode_matches (or_empty (delivery_postcodes s)) (rfq_postcodes r)
     \<and> (case wanted_welfare r of None \<Rightarrow> True
         | Some w \<Rightarrow> sublist w (lower (or_empty (welfare s))))
     \<and> can_cover_items s items \<noteq> 0"

subsection \<open>Seed data of the source\<close>

text \<open>
  The two suppliers that \<^verbatim>\<open>init_db\<close> seeds (the column \<^verbatim>\<open>moq_trays\<close> has integer affinity,
  so the seed's \<^verbatim>\<open>"30"\<close> is stored as 30), and the line item the command line builds.
\<close>

definition demo_orchard :: supplier where
  "demo_orchard =
     \<lparr>name = ''Orchard Eggs'', welfare = Some ''free-range'', sizes = Some ''L,XL'',
      pack_formats = Some ''tray,box'', moq_trays = Some 40, delivery_days = Some ''Tue,Fri'',
      delivery_postcodes = Some ''BN,BN1,RH'', price_band_low = Some (21 / 10),
      price_band_high = Some (28 / 10)\<rparr>"

definition demo_marshwood :: supplier where
  "demo_marshwood =
     \<lparr>name = ''Marshwood Farm'', welfare = Some ''organic'', sizes = Some ''M,L'',
      pack_formats = Some ''tray'', moq_trays = Some 30, delivery_days = Some ''Mon,Wed'',
      delivery_postcodes = Some ''BN,PO'', price_band_low = Some (22 / 10),
      price_band_high = Some 3\<rparr>"

definition cli_item :: line_item where
  "cli_item =
     \<lparr>kind = ''wholesale'', item_size = ''L'', pack = ''tray'', qty_week = 120,
      target_price = []\<rparr>"

subsection \<open>The formulas of the specification\<close>



section \<open>Properties of the cost normalizer\<close>

subsection \<open>Rounding to four decimals\<close>




text \<open>Away from the half-way points the rounded value is determined.\<close>

lemma rounds4_nearest:
  assumes "rounds4 rnd" and "\<bar>x - of_int n / 10000\<bar> < 1 / 20000"
  shows "rnd x = of_int n / 10000"
proof -
  from assms(1) obtain k :: int where k: "rnd x = of_int k / 10000"
    and near: "\<bar>rnd x - x\<bar> \<le> 1 / 20000"
    unfolding rounds4_def is_rounded4_def by blast
  have "\<bar>(of_int k :: rat) / 10000 - of_int n / 10000\<bar> < 1 / 10000"
    using near assms(2) unfolding k by linarith
  then have "\<bar>(of_int k :: rat) - of_int n\<bar> < 1"
    by (simp add: diff_divide_distrib [symmetric])
  then have "\<bar>(of_int (k - n) :: rat)\<bar> < 1" by simp
  then have "\<bar>k - n\<bar> < 1" by (metis of_int_abs of_int_less_1_iff)
  then have "k = n" by simp
  then show ?thesis using k by simp
qed

lemma rounds4_values:
  assumes "rounds4 rnd"
  shows "rnd 0 = 0" and "rnd (1 / 2) = 1 / 2" and "rnd 3 = 3"
    and "rnd (1 / 3) = 3333 / 10000" and "rnd (17 / 6) = 28333 / 10000"
  using rounds4_nearest [OF assms, of 0 0] rounds4_nearest [OF assms, of "1 / 2" 5000]
    rounds4_nearest [OF assms, of 3 30000] rounds4_nearest [OF assms, of "1 / 3" 3333]
    rounds4_nearest [OF assms, of "17 / 6" 28333]
  by simp_all

lemma py_round4_half: "py_round4 (1 / 2) = 1 / 2"
  by (simp add: py_round4_def Let_def)


subsection \<open>The rows\<close>


lemma make_row_delivery:
  "delivery_per_unit (make_row rnd q it) =
     rnd (if qty_week it \<noteq> 0 then or_zero (delivery_cost q) / of_int (qty_week it) else 0)"
  by (simp add: make_row_def Let_def)

lemma make_row_landed:
  "landed_per_unit (make_row rnd q it) =
     rnd (or_zero (unit_price q)
          + (if qty_week it \<noteq> 0 then or_zero (delivery_cost q) / of_int (qty_week it) else 0))"
  by (simp add: make_row_def Let_def)













section \<open>Properties of the matcher\<close>

lemma rank_loop_filter:
  "rank_loop r items suppliers =
     map (\<lambda>s. \<lparr>srow = s, score = supplier_score r items s\<rparr>) (filter (passes r items) suppliers)"
  by (induction suppliers) (auto split: option.splits)

lemma srow_rank_loop:
  "map srow (rank_loop r items suppliers) = filter (passes r items) suppliers"
  by (simp add: rank_loop_filter comp_def)

lemma set_rank: "set (rank_suppliers_for_rfq r items suppliers) = set (rank_loop r items suppliers)"
  by (simp add: rank_suppliers_for_rfq_def)

lemma srow_in_rank:
  "s \<in> srow ` set (rank_suppliers_for_rfq r items suppliers)
     \<longleftrightarrow> s \<in> set suppliers \<and> passes r items s"
proof -
  have "srow ` set (rank_suppliers_for_rfq r items suppliers)
          = set (map srow (rank_loop r items suppliers))"
    by (simp add: set_rank)
  then show ?thesis by (simp add: srow_rank_loop)
qed

lemma score_in_rank:
  "e \<in> set (rank_suppliers_for_rfq r items suppliers) \<Longrightarrow>
   score e = supplier_score r items (srow e)"
  by (auto simp: set_rank rank_loop_filter)

lemma upper_char_idem: "upper_char (upper_char c) = upper_char c"
  by (auto simp: upper_char_def is_lower_def)

lemma upper_idem: "upper (upper s) = upper s"
  by (simp add: upper_def upper_char_idem)

lemma csv_fields_map: "csv_fields f s = map f (csv_fields (\<lambda>x. x) s)"
  by (simp add: csv_fields_def)

lemma postcode_matches_iff:
  "postcode_matches p rps \<longleftrightarrow>
     (\<exists>sp \<in> set (csv_fields (\<lambda>x. x) p). \<exists>rp \<in> set rps. prefix (upper sp) (upper rp))"
proof (cases "p = []")
  case True
  then show ?thesis by (simp add: postcode_matches_def csv_fields_def strip_def)
next
  case False
  then show ?thesis
    by (auto simp: postcode_matches_def Let_def list_ex_iff csv_fields_map [of upper])
qed

lemma postcode_matches_rfq:
  "postcode_matches p (rfq_postcodes r) \<longleftrightarrow>
     (\<exists>sp \<in> set (csv_fields (\<lambda>x. x) p).
        \<exists>rp \<in> set (csv_fields (\<lambda>x. x) (or_empty (postcodes r))). prefix (upper sp) (upper rp))"
  by (auto simp: postcode_matches_iff rfq_postcodes_def csv_fields_map [of upper] upper_idem)

text \<open>
  Claim C5. A supplier none of whose delivery-area prefixes is a case-insensitive prefix
  of an area code of the RFQ is not in the matcher's output, whatever its other
  attributes, the line items and the other suppliers are.
\<close>

theorem no_area_match_excluded:
  assumes "\<forall>sp \<in> set (csv_fields (\<lambda>x. x) (or_empty (delivery_postcodes s))).
             \<forall>rp \<in> set (csv_fields (\<lambda>x. x) (or_empty (postcodes r))).
               \<not> prefix (upper sp) (upper rp)"
  shows "s \<notin> srow ` set (rank_suppliers_for_rfq r items suppliers)"
  using assms unfolding srow_in_rank postcode_matches_rfq by blast


theorem no_area_match_excluded_witness:
  "csv_fields (\<lambda>x. x) (or_empty (delivery_postcodes demo_marshwood)) = [''BN'', ''PO'']
   \<and> csv_fields (\<lambda>x. x) (or_empty (postcodes
         \<lparr>postcodes = Some ''se1'', rfq_welfare = None, delivery_windows = None\<rparr>)) = [''se1'']
   \<and> \<not> prefix (upper ''BN'') (upper ''se1'') \<and> \<not> prefix (upper ''PO'') (upper ''se1'')
   \<and> demo_marshwood \<notin> srow ` set (rank_suppliers_for_rfq
         \<lparr>postcodes = Some ''se1'', rfq_welfare = None, delivery_windows = None\<rparr>
         [cli_item] [demo_orchard, demo_marshwood])"
  (is "?a \<and> ?b \<and> ?c \<and> ?d \<and> ?e")
proof -
  have a: ?a by code_simp
  have b: ?b by code_simp
  have c: ?c by code_simp
  have d: ?d by code_simp
  have h: "\<forall>sp \<in> set (csv_fields (\<lambda>x. x) (or_empty (delivery_postcodes demo_marshwood))).
             \<forall>rp \<in> set (csv_fields (\<lambda>x. x) (or_empty (postcodes
                \<lparr>postcodes = Some ''se1'', rfq_welfare = None, delivery_windows = None\<rparr>))).
               \<not> prefix (upper sp) (upper rp)"
    unfolding a b using c d by simp
  have e: ?e by (rule no_area_match_excluded [OF h])
  show ?thesis using a b c d e by (intro conjI) assumption+
qed

text \<open>
  Claim C10. When the RFQ has no delivery-area code the matcher returns the empty list
  for every list of suppliers, and a supplier with no delivery-area prefix is in the
  output of no RFQ.
\<close>

theorem empty_area_sets:
  "(set (rfq_postcodes r) = {} \<longrightarrow> rank_suppliers_for_rfq r items suppliers = [])
   \<and> (set (csv_fields upper (or_empty (delivery_postcodes s))) = {}
        \<longrightarrow> s \<notin> srow ` set (rank_suppliers_for_rfq r items suppliers))"
proof (intro conjI impI)
  assume e: "set (rfq_postcodes r) = {}"
  have "filter (passes r items) suppliers = []"
    using e by (auto simp: filter_empty_conv postcode_matches_iff)
  then have "rank_loop r items suppliers = []" by (simp add: rank_loop_filter)
  then show "rank_suppliers_for_rfq r items suppliers = []"
    by (simp add: rank_suppliers_for_rfq_def)
next
  assume e: "set (csv_fields upper (or_empty (delivery_postcodes s))) = {}"
  then have "csv_fields (\<lambda>x. x) (or_empty (delivery_postcodes s)) = []"
    by (simp add: csv_fields_map [of upper])
  then have "\<not> postcode_matches (or_empty (delivery_postcodes s)) (rfq_postcodes r)"
    by (simp add: postcode_matches_iff)
  then show "s \<notin> srow ` set (rank_suppliers_for_rfq r items suppliers)"
    by (simp add: srow_in_rank)
qed

theorem empty_area_sets_witness:
  "set (rfq_postcodes \<lparr>postcodes = Some '' , '', rfq_welfare = None, delivery_windows = None\<rparr>) = {}
   \<and> rank_suppliers_for_rfq \<lparr>postcodes = Some '' , '', rfq_welfare = None, delivery_windows = None\<rparr>
        [cli_item] [demo_orchard, demo_marshwood] = []
   \<and> set (csv_fields upper (or_empty (delivery_postcodes
          (demo_orchard\<lparr>delivery_postcodes := None\<rparr>)))) = {}
   \<and> demo_orchard\<lparr>delivery_postcodes := None\<rparr>
        \<notin> srow ` set (rank_suppliers_for_rfq
             \<lparr>postcodes = Some ''BN1'', rfq_welfare = None, delivery_windows = None\<rparr>
             [cli_item] [demo_orchard\<lparr>delivery_postcodes := None\<rparr>, demo_marshwood])"
  (is "?a \<and> ?b \<and> ?c \<and> ?d")
proof -
  have a: ?a by code_simp
  have c: ?c by code_simp
  note t1 = empty_area_sets
    [of "\<lparr>postcodes = Some '' , '', rfq_welfare = None, delivery_windows = None\<rparr>"
        "[cli_item]" "[demo_orchard, demo_marshwood]" demo_orchard]
  note t2 = empty_area_sets
    [of "\<lparr>postcodes = Some ''BN1'', rfq_welfare = None, delivery_windows = None\<rparr>"
        "[cli_item]" "[demo_orchard\<lparr>delivery_postcodes := None\<rparr>, demo_marshwood]"
        "demo_orchard\<lparr>delivery_postcodes := None\<rparr>"]
  have b: ?b using t1 a by blast
  have d: ?d using t2 c by blast
  show ?thesis using a b c d by (intro conjI) assumption+
qed

lemma wanted_organic:
  "rfq_welfare r = Some ''organic'' \<Longrightarrow> wanted_welfare r = Some ''organic''"
proof -
  have "strip (lower ''organic'') = ''organic''" by code_simp
  then show "rfq_welfare r = Some ''organic'' \<Longrightarrow> wanted_welfare r = Some ''organic''"
    by (simp add: wanted_welfare_def or_empty_def)
qed

lemma lower_free_range: "lower ''free-range'' = ''free-range''"
  by code_simp

lemma not_sub_free_range: "\<not> sublist ''organic'' ''free-range''"
  by code_simp

lemma sub_organic_lion: "sublist ''organic'' ''organic, lion''"
  by code_simp

text \<open>
  Claim C6. When the RFQ states a welfare requirement (its welfare text, lowered and
  stripped, is the non-empty \<open>w\<close>), a supplier is in the matcher's output only if its
  welfare label, lowered, contains \<open>w\<close>; so the requirement \<open>organic\<close> excludes the
  label \<open>free-range\<close> and admits a label that reads \<open>organic, lion\<close> in any case.
  When the RFQ states none, membership does not depend on the welfare label.
\<close>

theorem welfare_filter:
  "(\<forall>w. wanted_welfare r = Some w \<longrightarrow>
        (s \<in> srow ` set (rank_suppliers_for_rfq r items suppliers)
           \<longleftrightarrow> s \<in> set suppliers
               \<and> postcode_matches (or_empty (delivery_postcodes s)) (rfq_postcodes r)
               \<and> sublist w (lower (or_empty (welfare s)))
               \<and> can_cover_items s items \<noteq> 0))
   \<and> (wanted_welfare r = None \<longrightarrow>
        (s \<in> srow ` set (rank_suppliers_for_rfq r items suppliers)
           \<longleftrightarrow> s \<in> set suppliers
               \<and> postcode_matches (or_empty (delivery_postcodes s)) (rfq_postcodes r)
               \<and> can_cover_items s items \<noteq> 0))
   \<and> (rfq_welfare r = Some ''organic'' \<and> welfare s = Some ''free-range''
        \<longrightarrow> s \<notin> srow ` set (rank_suppliers_for_rfq r items suppliers))
   \<and> (rfq_welfare r = Some ''organic'' \<and> lower (or_empty (welfare s)) = ''organic, lion''
        \<longrightarrow> (s \<in> srow ` set (rank_suppliers_for_rfq r items suppliers)
           \<longleftrightarrow> s \<in> set suppliers
               \<and> postcode_matches (or_empty (delivery_postcodes s)) (rfq_postcodes r)
               \<and> can_cover_items s items \<noteq> 0))"
proof (intro conjI allI impI)
  fix w assume "wanted_welfare r = Some w"
  then show "s \<in> srow ` set (rank_suppliers_for_rfq r items suppliers)
           \<longleftrightarrow> s \<in> set suppliers
               \<and> postcode_matches (or_empty (delivery_postcodes s)) (rfq_postcodes r)
               \<and> sublist w (lower (or_empty (welfare s)))
               \<and> can_cover_items s items \<noteq> 0"
    by (simp add: srow_in_rank)
next
  assume "wanted_welfare r = None"
  then show "s \<in> srow ` set (rank_suppliers_for_rfq r items suppliers)
           \<longleftrightarrow> s \<in> set suppliers
               \<and> postcode_matches (or_empty (delivery_postcodes s)) (rfq_postcodes r)
               \<and> can_cover_items s items \<noteq> 0"
    by (simp add: srow_in_rank)
next
  assume a: "rfq_welfare r = Some ''organic'' \<and> welfare s = Some ''free-range''"
  then have w: "wanted_welfare r = Some ''organic''" by (simp add: wanted_organic)
  have "lower (or_empty (welfare s)) = ''free-range''"
    using a by (simp add: or_empty_def lower_free_range)
  then show "s \<notin> srow ` set (rank_suppliers_for_rfq r items suppliers)"
    using w not_sub_free_range by (simp add: srow_in_rank)
next
  assume a: "rfq_welfare r = Some ''organic'' \<and> lower (or_empty (welfare s)) = ''organic, lion''"
  then have w: "wanted_welfare r = Some ''organic''" by (simp add: wanted_organic)
  show "s \<in> srow ` set (rank_suppliers_for_rfq r items suppliers)
           \<longleftrightarrow> s \<in> set suppliers
               \<and> postcode_matches (or_empty (delivery_postcodes s)) (rfq_postcodes r)
               \<and> can_cover_items s items \<noteq> 0"
    using a w sub_organic_lion by (simp add: srow_in_rank)
qed

theorem welfare_filter_witness:
  "wanted_welfare \<lparr>postcodes = Some ''BN1'', rfq_welfare = Some ''organic'', delivery_windows = None\<rparr>
     = Some ''organic''
   \<and> demo_marshwood\<lparr>welfare := Some ''Organic, Lion''\<rparr>
        \<in> set [demo_orchard, demo_marshwood\<lparr>welfare := Some ''Organic, Lion''\<rparr>]
   \<and> postcode_matches
        (or_empty (delivery_postcodes (demo_marshwood\<lparr>welfare := Some ''Organic, Lion''\<rparr>)))
        (rfq_postcodes \<lparr>postcodes = Some ''BN1'', rfq_welfare = Some ''organic'',
                        delivery_windows = None\<rparr>)
   \<and> sublist ''organic''
        (lower (or_empty (welfare (demo_marshwood\<lparr>welfare := Some ''Organic, Lion''\<rparr>))))
   \<and> can_cover_items (demo_marshwood\<lparr>welfare := Some ''Organic, Lion''\<rparr>) [cli_item] \<noteq> 0
   \<and> demo_marshwood\<lparr>welfare := Some ''Organic, Lion''\<rparr>
        \<in> srow ` set (rank_suppliers_for_rfq
             \<lparr>postcodes = Some ''BN1'', rfq_welfare = Some ''organic'', delivery_windows = None\<rparr>
             [cli_item] [demo_orchard, demo_marshwood\<lparr>welfare := Some ''Organic, Lion''\<rparr>])
   \<and> rfq_welfare \<lparr>postcodes = Some ''BN1'', rfq_welfare = Some ''organic'', delivery_windows = None\<rparr>
       = Some ''organic''
   \<and> welfare demo_orchard = Some ''free-range''
   \<and> demo_orchard
        \<notin> srow ` set (rank_suppliers_for_rfq
             \<lparr>postcodes = Some ''BN1'', rfq_welfare = Some ''organic'', delivery_windows = None\<rparr>
             [cli_item] [demo_orchard, demo_marshwood\<lparr>welfare := Some ''Organic, Lion''\<rparr>])
   \<and> wanted_welfare \<lparr>postcodes = Some ''BN1'', rfq_welfare = Some '' '', delivery_windows = None\<rparr>
       = None
   \<and> demo_orchard
        \<in> srow ` set (rank_suppliers_for_rfq
             \<lparr>postcodes = Some ''BN1'', rfq_welfare = Some '' '', delivery_windows = None\<rparr>
             [cli_item] [demo_orchard, demo_marshwood])"
  (is "?a \<and> ?b \<and> ?c \<and> ?d \<and> ?e \<and> ?f \<and> ?g \<and> ?h \<and> ?i \<and> ?j \<and> ?k")
proof -
  let ?r = "\<lparr>postcodes = Some ''BN1'', rfq_welfare = Some ''organic'', delivery_windows = None\<rparr>"
  let ?rn = "\<lparr>postcodes = Some ''BN1'', rfq_welfare = Some '' '', delivery_windows = None\<rparr>"
  let ?m = "demo_marshwood\<lparr>welfare := Some ''Organic, Lion''\<rparr>"
  have a: ?a by code_simp
  have b: ?b by simp
  have c: ?c by code_simp
  have d: ?d by code_simp
  have e: ?e by code_simp
  have g: ?g by simp
  have h: ?h by (simp add: demo_orchard_def)
  have j: ?j by code_simp
  note t1 = welfare_filter [of ?r ?m "[cli_item]" "[demo_orchard, ?m]",
      THEN conjunct1, THEN spec, THEN mp, OF a]
  note t2 = welfare_filter [of ?r demo_orchard "[cli_item]" "[demo_orchard, ?m]",
      THEN conjunct2, THEN conjunct2, THEN conjunct1, THEN mp, OF conjI, OF g h]
  note t3 = welfare_filter [of ?rn demo_orchard "[cli_item]" "[demo_orchard, demo_marshwood]",
      THEN conjunct2, THEN conjunct1, THEN mp, OF j]
  have f: ?f by (rule t1 [THEN iffD2]) (intro conjI b c d e)
  have i: ?i by (rule t2)
  have k1: "demo_orchard \<in> set [demo_orchard, demo_marshwood]" by simp
  have k2: "postcode_matches (or_empty (delivery_postcodes demo_orchard)) (rfq_postcodes ?rn)"
    by code_simp
  have k3: "can_cover_items demo_orchard [cli_item] \<noteq> 0" by code_simp
  have k: ?k by (rule t3 [THEN iffD2]) (intro conjI k1 k2 k3)
  show ?thesis using a b c d e f g h i j k by (intro conjI) assumption+
qed





lemma search_price_empty: "search_price [] = None"
  by (simp add: search_price_def)

lemma t_price_find:
  "t_price items =
     (case List.find (\<lambda>it. search_price (remove_char CHR '','' (target_price it)) \<noteq> None) items of
        None \<Rightarrow> None
      | Some it \<Rightarrow> search_price (remove_char CHR '','' (target_price it)))"
proof (induction items)
  case Nil
  then show ?case by simp
next
  case (Cons it items)
  show ?case
  proof (cases "target_price it = []")
    case True
    then show ?thesis using Cons by (simp add: remove_char_def search_price_empty)
  next
    case False
    then show ?thesis using Cons by (auto split: option.splits)
  qed
qed

lemma t_price_first:
  "search_price (remove_char CHR '','' (target_price (it :: line_item))) \<noteq> None \<Longrightarrow>
   t_price (pre @ it # post) = t_price (pre @ [it])"
proof (induction pre)
  case Nil
  then have "target_price it \<noteq> []"
    by (auto simp: remove_char_def search_price_empty)
  with Nil show ?case by (auto split: option.splits)
next
  case (Cons p pre)
  then show ?case by (simp split: option.splits)
qed

lemma price_bonus_iff:
  "price_bonus s items =
     (if (\<exists>t lo hi. t_price items = Some t \<and> price_band_low s = Some lo
            \<and> price_band_high s = Some hi \<and> lo \<le> t \<and> t \<le> hi)
      then 2 else 0)"
  by (auto simp: price_bonus_def split: option.splits)

text \<open>
  Claim C3. The score of an entry of the matcher's output is ten times the number of
  line items its supplier covers, plus twice the number of days that are both required
  by the RFQ and delivery days of the supplier (twice 1 when the RFQ requires no day),
  plus 2 exactly when a target price is found, the supplier has both ends of a price
  band and the target lies between them, ends included. The target price is the number
  parsed from the first line item whose target price holds a number; the items after it
  play no part.
\<close>

theorem score_formula:
  assumes "e \<in> set (rank_suppliers_for_rfq r items suppliers)"
  shows "score e =
           10 * int (card {i. i < length items \<and> covers (srow e) (items ! i)})
           + 2 * (if rfq_days r = {} then 1
                  else int (card (rfq_days r \<inter> supplier_days (srow e))))
           + (if (\<exists>t lo hi. t_price items = Some t \<and> price_band_low (srow e) = Some lo
                    \<and> price_band_high (srow e) = Some hi \<and> lo \<le> t \<and> t \<le> hi)
              then 2 else 0)
     \<and> t_price items =
         (case List.find (\<lambda>it. search_price (remove_char CHR '','' (target_price it)) \<noteq> None)
                 items of
            None \<Rightarrow> None
          | Some it \<Rightarrow> search_price (remove_char CHR '','' (target_price it)))
     \<and> (\<forall>pre (it :: line_item) post.
           search_price (remove_char CHR '','' (target_price it)) \<noteq> None
           \<longrightarrow> t_price (pre @ it # post) = t_price (pre @ [it]))"
proof (intro conjI allI impI)
  have "score e = supplier_score r items (srow e)"
    using assms by (rule score_in_rank)
  then show "score e =
           10 * int (card {i. i < length items \<and> covers (srow e) (items ! i)})
           + 2 * (if rfq_days r = {} then 1
                  else int (card (rfq_days r \<inter> supplier_days (srow e))))
           + (if (\<exists>t lo hi. t_price items = Some t \<and> price_band_low (srow e) = Some lo
                    \<and> price_band_high (srow e) = Some hi \<and> lo \<le> t \<and> t \<le> hi)
              then 2 else 0)"
    unfolding supplier_score_def price_bonus_iff
    by (simp add: can_cover_items_def length_filter_conv_card overlap_def)
next
  show "t_price items =
         (case List.find (\<lambda>it. search_price (remove_char CHR '','' (target_price it)) \<noteq> None)
                 items of
            None \<Rightarrow> None
          | Some it \<Rightarrow> search_price (remove_char CHR '','' (target_price it)))"
    by (rule t_price_find)
next
  fix pre post and it :: line_item
  assume "search_price (remove_char CHR '','' (target_price it)) \<noteq> None"
  then show "t_price (pre @ it # post) = t_price (pre @ [it])"
    by (rule t_price_first)
qed

theorem score_formula_witness:
  "\<lparr>srow = demo_orchard, score = 26\<rparr>
     \<in> set (rank_suppliers_for_rfq
          \<lparr>postcodes = Some ''BN1'', rfq_welfare = None, delivery_windows = Some ''tue/fri''\<rparr>
          [cli_item\<lparr>target_price := ''2.50''\<rparr>, cli_item\<lparr>target_price := ''9''\<rparr>]
          [demo_marshwood, demo_orchard])
   \<and> score \<lparr>srow = demo_orchard, score = 26\<rparr> =
       10 * int (card {i. i < length [cli_item\<lparr>target_price := ''2.50''\<rparr>,
                                      cli_item\<lparr>target_price := ''9''\<rparr>]
                        \<and> covers (srow \<lparr>srow = demo_orchard, score = 26\<rparr>)
                            ([cli_item\<lparr>target_price := ''2.50''\<rparr>,
                              cli_item\<lparr>target_price := ''9''\<rparr>] ! i)})
       + 2 * (if rfq_days \<lparr>postcodes = Some ''BN1'', rfq_welfare = None,
                            delivery_windows = Some ''tue/fri''\<rparr> = {} then 1
              else int (card (rfq_days \<lparr>postcodes = Some ''BN1'', rfq_welfare = None,
                                        delivery_windows = Some ''tue/fri''\<rparr>
                              \<inter> supplier_days (srow \<lparr>srow = demo_orchard, score = 26\<rparr>))))
       + (if (\<exists>t lo hi. t_price [cli_item\<lparr>target_price := ''2.50''\<rparr>,
                                  cli_item\<lparr>target_price := ''9''\<rparr>] = Some t
                \<and> price_band_low (srow \<lparr>srow = demo_orchard, score = 26\<rparr>) = Some lo
                \<and> price_band_high (srow \<lparr>srow = demo_orchard, score = 26\<rparr>) = Some hi
                \<and> lo \<le> t \<and> t \<le> hi)
          then 2 else 0)
   \<and> search_price (remove_char CHR '','' (target_price (cli_item\<lparr>target_price := ''2.50''\<rparr>)))
       = Some (5 / 2)
   \<and> t_price ([] @ cli_item\<lparr>target_price := ''2.50''\<rparr> # [cli_item\<lparr>target_price := ''9''\<rparr>])
       = t_price ([] @ [cli_item\<lparr>target_price := ''2.50''\<rparr>])
   \<and> t_price [cli_item\<lparr>target_price := ''2.50''\<rparr>, cli_item\<lparr>target_price := ''9''\<rparr>]
       = Some (5 / 2)"
  (is "?h \<and> ?c \<and> ?p \<and> ?f \<and> ?t")
proof -
  have h: ?h by code_simp
  have p: ?p by code_simp
  have t: ?t by code_simp
  have p': "search_price (remove_char CHR '','' (target_price (cli_item\<lparr>target_price := ''2.50''\<rparr>)))
              \<noteq> None"
    using p by simp
  have c: ?c by (rule score_formula [OF h, THEN conjunct1])
  have f: ?f
    by (rule score_formula [OF h, THEN conjunct2, THEN conjunct2, THEN spec, THEN spec,
          THEN spec, THEN mp, OF p'])
  show ?thesis using h c p f t by (intro conjI) assumption+
qed

lemma sort_key_pair_sorted:
  "sorted_wrt (\<lambda>a b. score b < score a \<or> (score a = score b \<and> name (srow a) \<le> name (srow b)))
     (sort_key (\<lambda>x. (- score x, name (srow x))) (xs :: ranked_supplier list))"
proof -
  let ?key = "\<lambda>x :: ranked_supplier. (- score x, name (srow x))"
  have "sorted (map ?key (sort_key ?key xs))" by (rule sorted_sort_key)
  then have "sorted_wrt (\<lambda>a b. ?key a \<le> ?key b) (sort_key ?key xs)"
    by (simp add: sorted_map)
  then show ?thesis
    by (rule sorted_wrt_mono_rel [rotated]) (auto simp: less_eq_prod_def)
qed

lemma rank_stable:
  "map srow (filter (\<lambda>e. score e = k \<and> name (srow e) = n)
               (rank_suppliers_for_rfq r items suppliers))
   = filter (\<lambda>s. passes r items s \<and> supplier_score r items s = k \<and> name s = n) suppliers"
proof -
  let ?key = "\<lambda>x :: ranked_supplier. (- score x, name (srow x))"
  have eq: "(\<lambda>e. score e = k \<and> name (srow e) = n) = (\<lambda>e. ?key e = (- k, n))"
    by auto
  have "filter (\<lambda>e. score e = k \<and> name (srow e) = n) (rank_suppliers_for_rfq r items suppliers)
        = filter (\<lambda>e. score e = k \<and> name (srow e) = n) (rank_loop r items suppliers)"
    unfolding eq rank_suppliers_for_rfq_def by (rule sort_key_stable)
  then show ?thesis
    by (simp add: rank_loop_filter filter_map comp_def conj_ac)
qed

text \<open>
  Claim C4. The matcher's output is in descending order of score, and entries of equal
  score are in ascending order of the supplier's name (compared character by character):
  of any two entries, the earlier has the higher score, or the same score and a name
  that is less than or equal to the later one's. Suppliers of equal score and equal name
  keep the order of the supplier table. On equal scores \<open>Alpha Farm\<close> comes before
  \<open>Beta Farm\<close>.
\<close>

theorem rank_order:
  "sorted_wrt (\<lambda>a b. score b < score a \<or> (score a = score b \<and> name (srow a) \<le> name (srow b)))
     (rank_suppliers_for_rfq r items suppliers)
   \<and> (\<forall>k n. map srow (filter (\<lambda>e. score e = k \<and> name (srow e) = n)
                       (rank_suppliers_for_rfq r items suppliers))
            = filter (\<lambda>s. passes r items s \<and> supplier_score r items s = k \<and> name s = n)
                suppliers)
   \<and> rank_suppliers_for_rfq
        \<lparr>postcodes = Some ''BN1'', rfq_welfare = None, delivery_windows = None\<rparr>
        [cli_item]
        [demo_orchard\<lparr>name := ''Beta Farm''\<rparr>, demo_orchard\<lparr>name := ''Alpha Farm''\<rparr>]
      = [\<lparr>srow = demo_orchard\<lparr>name := ''Alpha Farm''\<rparr>, score = 12\<rparr>,
         \<lparr>srow = demo_orchard\<lparr>name := ''Beta Farm''\<rparr>, score = 12\<rparr>]"
proof (intro conjI allI)
  show "sorted_wrt (\<lambda>a b. score b < score a \<or> (score a = score b \<and> name (srow a) \<le> name (srow b)))
     (rank_suppliers_for_rfq r items suppliers)"
    unfolding rank_suppliers_for_rfq_def by (rule sort_key_pair_sorted)
next
  fix k n
  show "map srow (filter (\<lambda>e. score e = k \<and> name (srow e) = n)
                       (rank_suppliers_for_rfq r items suppliers))
            = filter (\<lambda>s. passes r items s \<and> supplier_score r items s = k \<and> name s = n)
                suppliers"
    by (rule rank_stable)
next
  show "rank_suppliers_for_rfq
        \<lparr>postcodes = Some ''BN1'', rfq_welfare = None, delivery_windows = None\<rparr>
        [cli_item]
        [demo_orchard\<lparr>name := ''Beta Farm''\<rparr>, demo_orchard\<lparr>name := ''Alpha Farm''\<rparr>]
      = [\<lparr>srow = demo_orchard\<lparr>name := ''Alpha Farm''\<rparr>, score = 12\<rparr>,
         \<lparr>srow = demo_orchard\<lparr>name := ''Beta Farm''\<rparr>, score = 12\<rparr>]"
    by code_simp
qed

theorem rank_order_witness:
  "sorted_wrt (\<lambda>a b. score b < score a \<or> (score a = score b \<and> name (srow a) \<le> name (srow b)))
     (rank_suppliers_for_rfq
        \<lparr>postcodes = Some ''BN1'', rfq_welfare = None, delivery_windows = Some ''Mon''\<rparr>
        [cli_item] [demo_orchard, demo_marshwood])
   \<and> rank_suppliers_for_rfq
        \<lparr>postcodes = Some ''BN1'', rfq_welfare = None, delivery_windows = Some ''Mon''\<rparr>
        [cli_item] [demo_orchard, demo_marshwood]
      = [\<lparr>srow = demo_marshwood, score = 12\<rparr>, \<lparr>srow = demo_orchard, score = 10\<rparr>]"
  (is "?a \<and> ?b")
proof -
  have a: ?a by (rule rank_order [THEN conjunct1])
  have b: ?b by code_simp
  show ?thesis using a b by (intro conjI) assumption+
qed

section \<open>Exceptions of the cost normalizer\<close>

lemma resolve_item_beyond:
  "int (length items) \<le> idx \<Longrightarrow> resolve_item items idx = Inr placeholder"
  by (simp add: resolve_item_def)

lemma resolve_item_below:
  "idx < - int (length items) \<Longrightarrow> resolve_item items idx = Inl IndexError"
  by (simp add: resolve_item_def)

lemma zero_quantity_row:
  "rounds4 rnd \<Longrightarrow> qty_week it = 0 \<Longrightarrow>
   delivery_per_unit (make_row rnd q it) = 0
   \<and> landed_per_unit (make_row rnd q it) = rnd (or_zero (unit_price q))"
  by (simp add: make_row_delivery make_row_landed rounds4_values)

text \<open>
  Claim C8. A quote whose line-item index is out of range should still give one row,
  built from the placeholder item. The source does so for an index at or beyond the end
  of the item list (\<open>resolve_item_beyond\<close>); its test \<^verbatim>\<open>idx < len(items)\<close> lets a
  negative index through to \<^verbatim>\<open>items[idx]\<close>, which raises for an index below
  \<^verbatim>\<open>-len(items)\<close>. With no line item and the index \<open>-1\<close> the comparison ends in
  \<open>IndexError\<close> and gives no row.
\<close>

theorem out_of_range_negative_index_raises:
  "compare_rows rnd []
     [\<lparr>sname = ''Orchard Eggs'', line_item_index = Some (- 1), unit_price = Some (5 / 2),
       delivery_cost = Some 20, lead_time_days = None, hold_weeks = None, remarks = None\<rparr>]
   = Inl IndexError"
  by (simp add: compare_rows_def resolve_item_def or_zero_def)

text \<open>
  Claim C9. Neither core function should raise. The matcher is a total function of its
  inputs, and a zero quantity gives no division fault (\<open>zero_quantity_row\<close>); the
  comparison, however, raises \<open>IndexError\<close> on a quote whose index lies below
  \<^verbatim>\<open>-len(items)\<close>: here one line item and the index \<open>-2\<close>, after a quote that is in
  range.
\<close>

theorem compare_raises_index_error:
  "compare_rows rnd [cli_item]
     [\<lparr>sname = ''Marshwood Farm'', line_item_index = Some 0, unit_price = Some 3,
       delivery_cost = None, lead_time_days = None, hold_weeks = None, remarks = None\<rparr>,
      \<lparr>sname = ''Orchard Eggs'', line_item_index = Some (- 2), unit_price = Some (5 / 2),
       delivery_cost = Some 20, lead_time_days = None, hold_weeks = None, remarks = None\<rparr>]
   = Inl IndexError"
  by (simp add: compare_rows_def resolve_item_def or_zero_def)

end
